theory Spec2Isabelle
  imports Complex_Main
begin

section \<open>The unified voice agent hook (useUnifiedVoiceAgent)\<close>

text \<open>
  The hook keeps React state (lifecycle state, flags, transcript, change counter),
  four refs (room, session, audio track, transcript id counter) and acts on the
  outside world: the backend, the LiveKit room, the document's audio elements,
  timers and toasts. The model is one record holding the React state and the refs
  together with the part of the world the hook touches. State setters take effect
  on the record at once. A callback made by \<open>useCallback\<close> does not read the record:
  it reads the constants of the render that created it. So where the source reads a
  state variable inside a callback (\<open>inferenceState\<close> in startInference, \<open>isMicOn\<close> in
  toggleMic, \<open>transcription\<close> in saveTranscription) the model takes the captured value
  as an argument of its own, which may differ from the field of the record: a
  callback called twice in one tick, or kept from an earlier render, holds an old
  value. The configuration given to a function is likewise the one its callback
  captured (for stopInference, whose dependency list is empty, that of the first
  render). Functional updates (\<open>prev => \<dots>\<close>) and refs read the record. Calls that
  leave the hook are appended to a log, and what they answer is an input of the
  model.
  JavaScript is single threaded: the code between two awaits runs without
  interruption, so an async function is a chain of segments, one per await.
  \<open>console.log\<close> output is not modelled; \<open>console.error\<close> is.
\<close>

subsection \<open>Data\<close>

datatype inference_state = IDLE | CONNECTING | ACTIVE | ERROR

datatype speaker_role = User | Agent

record TranscriptionEntry =
  entry_id :: string
  entry_text :: string
  speaker :: speaker_role
  timestamp :: nat
  isFinal :: bool
  confidence :: "real option"
  source :: "string option"
  participantId :: "string option"
  trackId :: "string option"

record UnifiedVoiceAgentConfig =
  agentId :: string
  usePublicEndpoint :: bool

record VoiceSession =
  sessionId :: string
  roomName :: string
  token :: string
  url :: string
  participantIdentity :: string
  status :: string

text \<open>A transcription segment as the room delivers it: \<open>segment.text\<close>,
  \<open>segment.final\<close> and the optional \<open>confidence\<close>.\<close>

record segment =
  seg_text :: string
  seg_final :: bool
  seg_confidence :: "real option"

datatype track_kind = Audio | Video

text \<open>An \<open>audio\<close> element of the document; \<open>srcObject\<close> is the handle of the
  attached track, \<open>None\<close> for \<open>null\<close>.\<close>

record audio_element =
  srcObject :: "nat option"
  autoplay :: bool
  volume :: real

text \<open>What a rejected promise or a \<open>throw\<close> carries: an \<open>Error\<close> with its message,
  or some other value.\<close>

datatype thrown = ErrorObject string | OtherValue

datatype 'a settled = Resolved 'a | Rejected thrown

text \<open>Calls that leave the hook, in the order they are made. Rooms and tracks are
  handles. \<open>AgentCreateLiveKitSession\<close> records the id string that the source passes
  through \<open>parseInt\<close>; \<open>FetchSessionEnd\<close> records the session id of the body and
  whether the Authorization header is sent; \<open>Download\<close> records the time that
  names the file and the text of the blob.\<close>

datatype effect =
    ToastError string
  | ToastSuccess string
  | ConsoleError string
  | GetAgent string
  | PublicCreateLiveKitSession string
  | AgentCreateLiveKitSession string
  | RoomConnect nat string string
  | SetMicrophoneEnabled nat bool
  | FetchSessionEnd string bool
  | TrackStop nat
  | RoomDisconnect nat
  | TrackDetach nat
  | Download nat string

record hook =
  inferenceState :: inference_state
  isLoading :: bool
  isMicOn :: bool
  isConnected :: bool
  isUserSpeaking :: bool
  isTranscribing :: bool
  transcription :: "TranscriptionEntry list"
  transcriptionUpdateTrigger :: nat
  roomRef :: "nat option"
  sessionRef :: "VoiceSession option"
  audioTrackRef :: "nat option"
  transcriptionIdCounter :: nat
  document_audio :: "audio_element list"
  timers :: "nat list"
  clock :: nat
  effects :: "effect list"

text \<open>\<open>document_audio\<close> is what \<open>document.querySelectorAll('audio')\<close> returns,
  \<open>timers\<close> the due times (in ms) of the pending \<open>setTimeout\<close> callbacks, \<open>clock\<close>
  the current time in ms (\<open>new Date()\<close>).\<close>

definition initial_hook :: hook where
  "initial_hook = \<lparr>inferenceState = IDLE, isLoading = False, isMicOn = False,
     isConnected = False, isUserSpeaking = False, isTranscribing = False,
     transcription = [], transcriptionUpdateTrigger = 0, roomRef = None,
     sessionRef = None, audioTrackRef = None, transcriptionIdCounter = 0,
     document_audio = [], timers = [], clock = 0, effects = []\<rparr>"

text \<open>The cross mark U+274C that opens two of the \<open>console.error\<close> labels, in UTF-8.\<close>

definition cross_mark :: string where
  "cross_mark = [CHR 0xE2, CHR 0x9D, CHR 0x8C]"

definition emit :: "effect \<Rightarrow> hook \<Rightarrow> hook" where
  "emit e s = s\<lparr>effects := effects s @ [e]\<rparr>"

text \<open>The calls a later call has added to the log.\<close>

definition new_effects :: "hook \<Rightarrow> hook \<Rightarrow> effect list" where
  "new_effects s s' = drop (length (effects s)) (effects s')"


fun is_connect :: "effect \<Rightarrow> bool" where
  "is_connect (RoomConnect r u t) = True"
| "is_connect e = False"

subsection \<open>startInference\<close>

text \<open>\<open>targetAgentId || agentId\<close>: an absent or empty argument falls back to the
  configured id.\<close>

definition effectiveAgentId :: "UnifiedVoiceAgentConfig \<Rightarrow> string option \<Rightarrow> string" where
  "effectiveAgentId cfg targetAgentId =
     (case targetAgentId of
        None \<Rightarrow> agentId cfg
      | Some t \<Rightarrow> if t \<noteq> [] then t else agentId cfg)"

text \<open>The code up to the first await. \<open>captured\<close> is the \<open>inferenceState\<close> that the
  callback holds: the gate tests this constant, not the state that the setters have
  written since. \<open>None\<close>: the call has returned. \<open>Some a\<close>: it is suspended in
  \<open>await publicAgentAPI.getAgent(a)\<close>.\<close>

definition startInference_begin ::
  "UnifiedVoiceAgentConfig \<Rightarrow> inference_state \<Rightarrow> string option \<Rightarrow> hook \<Rightarrow>
     string option \<times> hook" where
  "startInference_begin cfg captured targetAgentId s =
     (let a = effectiveAgentId cfg targetAgentId in
      if a = [] then (None, emit (ToastError ''Agent ID is required'') s)
      else if captured \<noteq> IDLE then (None, s)
      else (Some a, emit (GetAgent a) (s\<lparr>isLoading := True, inferenceState := CONNECTING\<rparr>)))"

text \<open>After \<open>getAgent\<close> has resolved: the session is requested.\<close>

definition startInference_createSession ::
  "UnifiedVoiceAgentConfig \<Rightarrow> string \<Rightarrow> hook \<Rightarrow> hook" where
  "startInference_createSession cfg a s =
     (if usePublicEndpoint cfg then emit (PublicCreateLiveKitSession a) s
      else emit (AgentCreateLiveKitSession a) s)"

text \<open>After the session request has resolved with \<open>sessionData\<close>: the refs are set,
  the handlers are registered on the new room and \<open>room.connect\<close> is called.\<close>

definition startInference_connect :: "nat \<Rightarrow> VoiceSession \<Rightarrow> hook \<Rightarrow> hook" where
  "startInference_connect room sessionData s =
     emit (RoomConnect room (url sessionData) (token sessionData))
       (s\<lparr>sessionRef := Some sessionData, roomRef := Some room\<rparr>)"

definition start_error_message :: "thrown \<Rightarrow> string" where
  "start_error_message e =
     (case e of ErrorObject m \<Rightarrow> m | OtherValue \<Rightarrow> ''Failed to start voice session'')"

text \<open>The catch block of startInference.\<close>

definition startInference_catch :: "thrown \<Rightarrow> hook \<Rightarrow> hook" where
  "startInference_catch e s =
     emit (ToastError (start_error_message e))
       ((emit (ConsoleError (cross_mark @ '' Error starting unified voice session:'')) s)
          \<lparr>inferenceState := ERROR, isLoading := False\<rparr>)"

text \<open>What the three awaited calls of one start attempt answer, and the room that
  \<open>new Room()\<close> creates.\<close>

record start_env =
  getAgent_result :: "unit settled"
  createLiveKitSession_result :: "VoiceSession settled"
  newRoom :: nat
  connect_result :: "unit settled"

text \<open>One call of startInference, run to its end.\<close>

definition startInference ::
  "UnifiedVoiceAgentConfig \<Rightarrow> start_env \<Rightarrow> inference_state \<Rightarrow> string option \<Rightarrow> hook \<Rightarrow>
     hook" where
  "startInference cfg env captured targetAgentId s =
     (case startInference_begin cfg captured targetAgentId s of
        (None, s1) \<Rightarrow> s1
      | (Some a, s1) \<Rightarrow>
          (case getAgent_result env of
             Rejected e \<Rightarrow> startInference_catch e s1
           | Resolved u \<Rightarrow>
               (let s2 = startInference_createSession cfg a s1 in
                case createLiveKitSession_result env of
                  Rejected e \<Rightarrow> startInference_catch e s2
                | Resolved sessionData \<Rightarrow>
                    (let s3 = startInference_connect (newRoom env) sessionData s2 in
                     case connect_result env of
                       Rejected e \<Rightarrow> startInference_catch e s3
                     | Resolved u \<Rightarrow> s3))))"


subsection \<open>Room event handlers\<close>

text \<open>The Connected handler up to \<open>await setMicrophoneEnabled(true)\<close>, and what it
  does once that call has settled. Registering the listeners on the published
  tracks changes no state of the hook.\<close>

definition onConnected :: "nat \<Rightarrow> hook \<Rightarrow> hook" where
  "onConnected room s =
     emit (SetMicrophoneEnabled room True)
       (s\<lparr>isConnected := True, inferenceState := ACTIVE, isLoading := False\<rparr>)"

definition onMicrophoneEnabled :: "unit settled \<Rightarrow> hook \<Rightarrow> hook" where
  "onMicrophoneEnabled r s =
     (case r of
        Resolved u \<Rightarrow> emit (ToastSuccess ''Voice session started successfully'') (s\<lparr>isMicOn := True\<rparr>)
      | Rejected e \<Rightarrow>
          emit (ToastError ''Failed to enable microphone'')
            (emit (ConsoleError (cross_mark @ '' Failed to enable microphone:'')) s))"

definition onDisconnected :: "hook \<Rightarrow> hook" where
  "onDisconnected s =
     s\<lparr>isConnected := False, inferenceState := IDLE, isMicOn := False, isUserSpeaking := False\<rparr>"

text \<open>\<open>localIdentity\<close> is \<open>room.localParticipant.identity\<close> at the time of the event.\<close>

definition onActiveSpeakersChanged :: "string \<Rightarrow> string list \<Rightarrow> hook \<Rightarrow> hook" where
  "onActiveSpeakersChanged localIdentity speakers s =
     (if list_ex (\<lambda>i. i = localIdentity) speakers then s\<lparr>isUserSpeaking := True\<rparr>
      else s\<lparr>isUserSpeaking := False\<rparr>)"

definition onTrackPublished :: "string \<Rightarrow> string \<Rightarrow> track_kind \<Rightarrow> hook \<Rightarrow> hook" where
  "onTrackPublished localIdentity participant kind s =
     (if participant = localIdentity \<and> kind = Audio then s\<lparr>isUserSpeaking := True\<rparr> else s)"

definition onTrackUnpublished :: "string \<Rightarrow> string \<Rightarrow> track_kind \<Rightarrow> hook \<Rightarrow> hook" where
  "onTrackUnpublished localIdentity participant kind s =
     (if participant = localIdentity \<and> kind = Audio then s\<lparr>isUserSpeaking := False\<rparr> else s)"

text \<open>\<open>track.attach()\<close> gives a new element playing the track; the handler sets
  autoplay and volume and appends it to the document body.\<close>

definition onTrackSubscribed :: "track_kind \<Rightarrow> nat \<Rightarrow> hook \<Rightarrow> hook" where
  "onTrackSubscribed kind track s =
     (if kind = Audio
      then s\<lparr>document_audio := document_audio s @
               [\<lparr>srcObject = Some track, autoplay = True, volume = 1\<rparr>]\<rparr>
      else s)"

text \<open>\<open>track.detach()\<close> is a call into the transport library; the handler itself
  removes nothing from the document.\<close>

definition onTrackUnsubscribed :: "track_kind \<Rightarrow> nat \<Rightarrow> hook \<Rightarrow> hook" where
  "onTrackUnsubscribed kind track s =
     (if kind = Audio then emit (TrackDetach track) s else s)"

definition onLocalTrackMuted :: "hook \<Rightarrow> hook" where
  "onLocalTrackMuted s = s\<lparr>isUserSpeaking := False\<rparr>"

subsection \<open>Transcription segments\<close>

fun show_nat :: "nat \<Rightarrow> string" where
  "show_nat n =
     (if n < 10 then [char_of (48 + n)]
      else show_nat (n div 10) @ [char_of (48 + n mod 10)])"

declare show_nat.simps [simp del]

text \<open>The callback given to \<open>setTimeout(\<dots>, 500)\<close>.\<close>

definition timeout_callback :: "hook \<Rightarrow> hook" where
  "timeout_callback s = s\<lparr>isUserSpeaking := False, isTranscribing := False\<rparr>"

text \<open>The body of \<open>segments.forEach\<close>. \<open>participant\<close> is \<open>participant?.identity\<close> and
  \<open>publication\<close> is \<open>publication?.trackSid\<close>; \<open>None\<close> stands for \<open>undefined\<close>, which
  is never equal to the local identity.\<close>

definition handle_segment ::
  "string \<Rightarrow> string option \<Rightarrow> string option \<Rightarrow> segment \<Rightarrow> hook \<Rightarrow> hook" where
  "handle_segment localIdentity participant publication seg s =
     (let isUser = (participant = Some localIdentity);
          s1 = (if isUser then s\<lparr>isUserSpeaking := True, isTranscribing := True\<rparr> else s);
          transcriptionEntry =
            \<lparr>entry_id = ''trans_'' @ show_nat (transcriptionIdCounter s1),
             entry_text = seg_text seg,
             speaker = (if isUser then User else Agent),
             timestamp = clock s1,
             isFinal = seg_final seg,
             confidence = seg_confidence seg,
             source = Some ''livekit'',
             participantId = participant,
             trackId = publication\<rparr>;
          s2 = s1\<lparr>transcriptionIdCounter := transcriptionIdCounter s1 + 1,
                 transcription := transcription s1 @ [transcriptionEntry],
                 transcriptionUpdateTrigger := transcriptionUpdateTrigger s1 + 1\<rparr>
      in if seg_final seg \<and> isUser then s2\<lparr>timers := timers s2 @ [clock s2 + 500]\<rparr> else s2)"

definition onTranscriptionReceived ::
  "string \<Rightarrow> segment list \<Rightarrow> string option \<Rightarrow> string option \<Rightarrow> hook \<Rightarrow> hook" where
  "onTranscriptionReceived localIdentity segments participant publication s =
     fold (handle_segment localIdentity participant publication) segments s"

text \<open>Time passes: every pending timeout that is due by then runs its callback and
  is gone; the others stay pending.\<close>

definition elapse :: "nat \<Rightarrow> hook \<Rightarrow> hook" where
  "elapse ms s =
     (let t = clock s + ms in
      fold (\<lambda>d. timeout_callback) (filter (\<lambda>d. d \<le> t) (timers s))
        (s\<lparr>clock := t, timers := filter (\<lambda>d. \<not> d \<le> t) (timers s)\<rparr>))"

subsection \<open>Events\<close>

text \<open>What the environment delivers to the hook's callbacks: the room events, the
  mute events of the local track, the settling of the microphone call made by the
  Connected handler, and the passing of time.\<close>

datatype event =
    Connected nat
  | MicrophoneEnabled "unit settled"
  | Disconnected
  | ParticipantConnected string
  | AudioPlaybackStatusChanged
  | ActiveSpeakersChanged string "string list"
  | TrackPublished string string track_kind
  | TrackUnpublished string string track_kind
  | TrackSubscribed track_kind nat
  | TrackUnsubscribed track_kind nat
  | TranscriptionReceived string "segment list" "string option" "string option"
  | LocalTrackMuted
  | LocalTrackUnmuted
  | Elapse nat

fun handle_event :: "event \<Rightarrow> hook \<Rightarrow> hook" where
  "handle_event (Connected room) s = onConnected room s"
| "handle_event (MicrophoneEnabled r) s = onMicrophoneEnabled r s"
| "handle_event Disconnected s = onDisconnected s"
| "handle_event (ParticipantConnected p) s = s"
| "handle_event AudioPlaybackStatusChanged s = s"
| "handle_event (ActiveSpeakersChanged l speakers) s = onActiveSpeakersChanged l speakers s"
| "handle_event (TrackPublished l p k) s = onTrackPublished l p k s"
| "handle_event (TrackUnpublished l p k) s = onTrackUnpublished l p k s"
| "handle_event (TrackSubscribed k t) s = onTrackSubscribed k t s"
| "handle_event (TrackUnsubscribed k t) s = onTrackUnsubscribed k t s"
| "handle_event (TranscriptionReceived l segs p pub) s = onTranscriptionReceived l segs p pub s"
| "handle_event LocalTrackMuted s = onLocalTrackMuted s"
| "handle_event LocalTrackUnmuted s = s"
| "handle_event (Elapse ms) s = elapse ms s"

definition run :: "event list \<Rightarrow> hook \<Rightarrow> hook" where
  "run evs s = fold handle_event evs s"

text \<open>The rest of a start attempt that is suspended in \<open>getAgent\<close>, when that call
  and the ones after it resolve: the session is requested and stored, the room is
  created and connected, the room reports Connected and the microphone call resolves.\<close>

definition startInference_resume ::
  "UnifiedVoiceAgentConfig \<Rightarrow> string \<Rightarrow> nat \<Rightarrow> VoiceSession \<Rightarrow> hook \<Rightarrow> hook" where
  "startInference_resume cfg a room sessionData s =
     run [Connected room, MicrophoneEnabled (Resolved ())]
       (startInference_connect room sessionData (startInference_createSession cfg a s))"

fun elapsed :: "event list \<Rightarrow> nat" where
  "elapsed [] = 0"
| "elapsed (Elapse ms # evs) = ms + elapsed evs"
| "elapsed (e # evs) = elapsed evs"

subsection \<open>stopInference\<close>

text \<open>What the calls of one stopInference answer: the \<open>fetch\<close> of the session end,
  \<open>audioTrackRef.current.stop()\<close> and \<open>roomRef.current.disconnect()\<close>.\<close>

record stop_env =
  fetch_result :: "unit settled"
  trackStop_result :: "unit settled"
  disconnect_result :: "unit settled"

text \<open>How an async function ends: its promise is fulfilled, or rejected with what
  was thrown. Both carry the state the function leaves behind.\<close>

datatype completion = Completed hook | Threw thrown hook

fun final_state :: "completion \<Rightarrow> hook" where
  "final_state (Completed s) = s"
| "final_state (Threw e s) = s"

fun completed :: "completion \<Rightarrow> bool" where
  "completed (Completed s) = True"
| "completed (Threw e s) = False"

text \<open>The try block with its catch: the session end is posted when the session ref
  holds a session with a non-empty id.\<close>

definition stopInference_notify :: "UnifiedVoiceAgentConfig \<Rightarrow> stop_env \<Rightarrow> hook \<Rightarrow> hook" where
  "stopInference_notify cfg env s =
     (case sessionRef s of
        None \<Rightarrow> s
      | Some sd \<Rightarrow>
          if sessionId sd \<noteq> [] then
            (let s1 = emit (FetchSessionEnd (sessionId sd) (\<not> usePublicEndpoint cfg)) s in
             case fetch_result env of
               Resolved u \<Rightarrow> s1
             | Rejected e \<Rightarrow> emit (ConsoleError ''Error stopping session on backend:'') s1)
          else s)"

text \<open>The last part: audio elements with a \<open>srcObject\<close> are removed, the session ref
  and the flags are reset.\<close>

definition stopInference_finish :: "hook \<Rightarrow> hook" where
  "stopInference_finish s =
     emit (ToastSuccess ''Voice session stopped'')
       (s\<lparr>document_audio := filter (\<lambda>audio. srcObject audio = None) (document_audio s),
          sessionRef := None,
          isConnected := False,
          inferenceState := IDLE,
          isMicOn := False,
          isUserSpeaking := False,
          isLoading := False\<rparr>)"

definition stopInference_disconnect :: "stop_env \<Rightarrow> hook \<Rightarrow> completion" where
  "stopInference_disconnect env s =
     (case roomRef s of
        None \<Rightarrow> Completed (stopInference_finish s)
      | Some room \<Rightarrow>
          (let s1 = emit (RoomDisconnect room) s in
           case disconnect_result env of
             Rejected e \<Rightarrow> Threw e s1
           | Resolved u \<Rightarrow> Completed (stopInference_finish (s1\<lparr>roomRef := None\<rparr>))))"

definition stopInference_cleanup :: "stop_env \<Rightarrow> hook \<Rightarrow> completion" where
  "stopInference_cleanup env s =
     (case audioTrackRef s of
        None \<Rightarrow> stopInference_disconnect env s
      | Some track \<Rightarrow>
          (let s1 = emit (TrackStop track) s in
           case trackStop_result env of
             Rejected e \<Rightarrow> Threw e s1
           | Resolved u \<Rightarrow> stopInference_disconnect env (s1\<lparr>audioTrackRef := None\<rparr>)))"

definition stopInference :: "UnifiedVoiceAgentConfig \<Rightarrow> stop_env \<Rightarrow> hook \<Rightarrow> completion" where
  "stopInference cfg env s = stopInference_cleanup env (stopInference_notify cfg env s)"

subsection \<open>toggleMic\<close>


subsection \<open>Transcript operations\<close>

definition clearTranscription :: "hook \<Rightarrow> hook" where
  "clearTranscription s =
     s\<lparr>transcription := [], transcriptionUpdateTrigger := transcriptionUpdateTrigger s + 1\<rparr>"

fun join_with :: "string \<Rightarrow> string list \<Rightarrow> string" where
  "join_with sep [] = []"
| "join_with sep [x] = x"
| "join_with sep (x # y # ys) = x @ sep @ join_with sep (y # ys)"

fun speaker_name :: "speaker_role \<Rightarrow> string" where
  "speaker_name User = ''user''"
| "speaker_name Agent = ''agent''"

text \<open>One line of the saved text. \<open>toLocaleTimeString\<close> is the platform's rendering
  of a time of day in the locale of the runtime and is a parameter.\<close>

definition entry_line :: "(nat \<Rightarrow> string) \<Rightarrow> TranscriptionEntry \<Rightarrow> string" where
  "entry_line toLocaleTimeString entry =
     ''['' @ toLocaleTimeString (timestamp entry) @ ''] '' @
     speaker_name (speaker entry) @ '': '' @ entry_text entry"

definition transcriptionText :: "(nat \<Rightarrow> string) \<Rightarrow> TranscriptionEntry list \<Rightarrow> string" where
  "transcriptionText toLocaleTimeString entries =
     join_with [CHR 0x0A] (map (entry_line toLocaleTimeString) (filter isFinal entries))"

text \<open>The text is put into a blob that is downloaded through a temporary anchor;
  these browser calls do not fail in the model, so the catch block is not entered.\<close>


subsection \<open>Two renderings of the time of day\<close>

text \<open>\<open>toLocaleTimeString()\<close> is called without a locale and without options, so the
  label of a line is what the runtime's locale makes of the time. The two functions
  below are not taken from the source: they give the platform's rendering (ECMA-402
  with the CLDR patterns) for a 24-hour locale, \<open>HH:mm:ss\<close>, and for en-US,
  \<open>h:mm:ss\<close> followed by AM or PM (after a space; newer CLDR data has a narrow
  no-break space there, and the label is not \<open>HH:MM:SS\<close> either way). The time is the
  local time in ms.\<close>

definition pad2 :: "nat \<Rightarrow> string" where
  "pad2 n = (if n < 10 then ''0'' @ show_nat n else show_nat n)"

definition toLocaleTimeString_en_GB :: "nat \<Rightarrow> string" where
  "toLocaleTimeString_en_GB t =
     pad2 ((t div 3600000) mod 24) @ '':'' @ pad2 ((t div 60000) mod 60) @ '':'' @
     pad2 ((t div 1000) mod 60)"


subsection \<open>What arrived, as the transcript should show it\<close>

text \<open>The part of an entry that comes from the segment: who spoke, the text and the
  final flag.\<close>

definition entry_core :: "TranscriptionEntry \<Rightarrow> speaker_role \<times> string \<times> bool" where
  "entry_core entry = (speaker entry, entry_text entry, isFinal entry)"


subsection \<open>Concrete sessions\<close>

definition cfg42 :: UnifiedVoiceAgentConfig where
  "cfg42 = \<lparr>agentId = ''agent-42'', usePublicEndpoint = False\<rparr>"

definition session_s1 :: VoiceSession where
  "session_s1 = \<lparr>sessionId = ''s1'', roomName = ''room-1'', token = ''t'', url = ''wss://x'',
     participantIdentity = ''me'', status = ''active''\<rparr>"

definition start_ok :: start_env where
  "start_ok = \<lparr>getAgent_result = Resolved (), createLiveKitSession_result = Resolved session_s1,
     newRoom = 1, connect_result = Resolved ()\<rparr>"

definition start_unreachable :: start_env where
  "start_unreachable = \<lparr>getAgent_result = Rejected (ErrorObject ''Network Error''),
     createLiveKitSession_result = Resolved session_s1, newRoom = 1,
     connect_result = Resolved ()\<rparr>"

definition stop_ok :: stop_env where
  "stop_ok = \<lparr>fetch_result = Resolved (), trackStop_result = Resolved (),
     disconnect_result = Resolved ()\<rparr>"

definition stop_disconnect_rejects :: stop_env where
  "stop_disconnect_rejects = \<lparr>fetch_result = Resolved (), trackStop_result = Resolved (),
     disconnect_result = Rejected (ErrorObject ''disconnect failed'')\<rparr>"

text \<open>A session that has started, is connected with the microphone on and plays one
  remote audio track.\<close>

definition active_hook :: hook where
  "active_hook =
     run [Connected 1, MicrophoneEnabled (Resolved ()), TrackSubscribed Audio 7]
       (startInference cfg42 start_ok IDLE None initial_hook)"

text \<open>The same session with an audio element whose \<open>srcObject\<close> is \<open>null\<close>.\<close>

definition idle_sink_hook :: hook where
  "idle_sink_hook =
     active_hook\<lparr>document_audio := [\<lparr>srcObject = None, autoplay = True, volume = 1\<rparr>]\<rparr>"

text \<open>A start attempt that has passed the gate and waits for \<open>getAgent\<close>.\<close>

definition connecting_hook :: hook where
  "connecting_hook = snd (startInference_begin cfg42 IDLE None initial_hook)"


text \<open>That attempt stopped while it waits, and the same attempt after its calls have
  resolved and the room has connected.\<close>

definition stopped_while_connecting :: hook where
  "stopped_while_connecting =
     final_state (stopInference cfg42 stop_ok connecting_hook)"

definition stale_attempt_resumed :: hook where
  "stale_attempt_resumed =
     startInference_resume cfg42 ''agent-42'' 1 session_s1 stopped_while_connecting"

definition seg_hello :: segment where
  "seg_hello = \<lparr>seg_text = ''hello'', seg_final = True, seg_confidence = None\<rparr>"

definition seg_how :: segment where
  "seg_how = \<lparr>seg_text = ''how are'', seg_final = False, seg_confidence = None\<rparr>"

text \<open>The user finishes one utterance and begins the next 100 ms later.\<close>

definition next_utterance :: "event list" where
  "next_utterance =
     [TranscriptionReceived ''me'' [seg_hello] (Some ''me'') None,
      Elapse 100,
      TranscriptionReceived ''me'' [seg_how] (Some ''me'') None]"

text \<open>The transcript of the eighth scenario of the specification: at 10:00:00 a
  final segment of the user, then a segment of the agent that is not final.\<close>

definition seg_hi :: segment where
  "seg_hi = \<lparr>seg_text = ''hi'', seg_final = True, seg_confidence = None\<rparr>"

definition seg_agent_hello :: segment where
  "seg_agent_hello = \<lparr>seg_text = ''hello'', seg_final = False, seg_confidence = None\<rparr>"

definition ten_o_clock :: hook where
  "ten_o_clock =
     run [TranscriptionReceived ''me'' [seg_hi] (Some ''me'') None,
          TranscriptionReceived ''me'' [seg_agent_hello] (Some ''agent-1'') None]
       (initial_hook\<lparr>clock := 36000000\<rparr>)"

definition two_segments :: hook where
  "two_segments =
     run [TranscriptionReceived ''me'' [seg_hello] (Some ''me'') None,
          TranscriptionReceived ''me'' [seg_how] (Some ''agent-1'') None] initial_hook"

section \<open>Properties\<close>

lemmas start_defs = startInference_def startInference_begin_def startInference_createSession_def
  startInference_connect_def startInference_catch_def effectiveAgentId_def emit_def
  start_error_message_def

lemmas handler_defs = onConnected_def onMicrophoneEnabled_def onDisconnected_def
  onActiveSpeakersChanged_def onTrackPublished_def onTrackUnpublished_def onTrackSubscribed_def
  onTrackUnsubscribed_def onLocalTrackMuted_def

subsection \<open>The gate of startInference\<close>








subsection \<open>A rejected provisioning call\<close>

text \<open>The catch block does the same in whatever state the rejection finds the hook.\<close>

lemma startInference_catch_any_state:
  "inferenceState (startInference_catch e s) = ERROR \<and>
   isLoading (startInference_catch e s) = False \<and>
   new_effects s (startInference_catch e s) =
     [ConsoleError (cross_mark @ '' Error starting unified voice session:''),
      ToastError (start_error_message e)]"
  by (simp add: startInference_catch_def emit_def new_effects_def)

text \<open>
  Claim C7. When startInference is called with an agent id through a callback that
  holds the state IDLE (so that it makes its provisioning call) and the
  provisioning call rejects (the request for the agent, or the request for the
  session after it), the lifecycle state becomes ERROR, the loading flag is false, the
  last thing done is an error toast showing the message of the error (a fixed text
  when what was thrown is not an Error), and the attempt makes no transport connect:
  no connect call is logged and the room ref is untouched.
\<close>

theorem startInference_provisioning_rejected:
  assumes "captured = IDLE" and "effectiveAgentId cfg t \<noteq> []"
    and "getAgent_result env = Rejected e \<or>
         (getAgent_result env = Resolved () \<and> createLiveKitSession_result env = Rejected e)"
  shows "inferenceState (startInference cfg env captured t s) = ERROR \<and>
         isLoading (startInference cfg env captured t s) = False \<and>
         last (effects (startInference cfg env captured t s)) =
           ToastError (case e of ErrorObject m \<Rightarrow> m
                       | OtherValue \<Rightarrow> ''Failed to start voice session'') \<and>
         filter is_connect (new_effects s (startInference cfg env captured t s)) = [] \<and>
         roomRef (startInference cfg env captured t s) = roomRef s"
  using assms
  by (auto simp add: start_defs new_effects_def Let_def split: thrown.splits)

theorem startInference_provisioning_rejected_witness:
  "inferenceState initial_hook = IDLE \<and> effectiveAgentId cfg42 None \<noteq> [] \<and>
   getAgent_result start_unreachable = Rejected (ErrorObject ''Network Error'') \<and>
   inferenceState (startInference cfg42 start_unreachable (inferenceState initial_hook) None
      initial_hook) = ERROR \<and>
   isLoading (startInference cfg42 start_unreachable (inferenceState initial_hook) None
      initial_hook) = False \<and>
   last (effects (startInference cfg42 start_unreachable (inferenceState initial_hook) None
      initial_hook)) = ToastError ''Network Error'' \<and>
   filter is_connect
     (new_effects initial_hook (startInference cfg42 start_unreachable
        (inferenceState initial_hook) None initial_hook)) = [] \<and>
   roomRef (startInference cfg42 start_unreachable (inferenceState initial_hook) None
      initial_hook) = roomRef initial_hook"
proof -
  have h1: "inferenceState initial_hook = IDLE" by (simp add: initial_hook_def)
  have h2: "effectiveAgentId cfg42 None \<noteq> []" by (simp add: effectiveAgentId_def cfg42_def)
  have h3: "getAgent_result start_unreachable = Rejected (ErrorObject ''Network Error'')"
    by (simp add: start_unreachable_def)
  have h3': "getAgent_result start_unreachable = Rejected (ErrorObject ''Network Error'') \<or>
         (getAgent_result start_unreachable = Resolved () \<and>
          createLiveKitSession_result start_unreachable = Rejected (ErrorObject ''Network Error''))"
    using h3 by (rule disjI1)
  show ?thesis
    using h1 h2 h3
      startInference_provisioning_rejected [OF h1 h2 h3', where s = initial_hook]
    by simp
qed

subsection \<open>stopInference\<close>

lemma stopInference_notify_fields:
  "inferenceState (stopInference_notify cfg env s) = inferenceState s \<and>
   roomRef (stopInference_notify cfg env s) = roomRef s \<and>
   sessionRef (stopInference_notify cfg env s) = sessionRef s \<and>
   audioTrackRef (stopInference_notify cfg env s) = audioTrackRef s \<and>
   document_audio (stopInference_notify cfg env s) = document_audio s"
  by (simp add: stopInference_notify_def emit_def Let_def split: option.splits settled.splits)

lemma stopInference_notify_frame:
  "transcription (stopInference_notify cfg env s) = transcription s \<and>
   transcriptionUpdateTrigger (stopInference_notify cfg env s) = transcriptionUpdateTrigger s \<and>
   isTranscribing (stopInference_notify cfg env s) = isTranscribing s"
  by (simp add: stopInference_notify_def emit_def Let_def split: option.splits settled.splits)

lemma stopInference_cleanup_frame:
  "transcription (final_state (stopInference_cleanup env s)) = transcription s \<and>
   transcriptionUpdateTrigger (final_state (stopInference_cleanup env s)) =
     transcriptionUpdateTrigger s \<and>
   isTranscribing (final_state (stopInference_cleanup env s)) = isTranscribing s"
  by (simp add: stopInference_cleanup_def stopInference_disconnect_def stopInference_finish_def
      emit_def Let_def split: option.splits settled.splits)

lemma stopInference_cleanup_completed:
  assumes "completed (stopInference_cleanup env s)"
  shows "inferenceState (final_state (stopInference_cleanup env s)) = IDLE \<and>
         isMicOn (final_state (stopInference_cleanup env s)) = False \<and>
         isConnected (final_state (stopInference_cleanup env s)) = False \<and>
         isUserSpeaking (final_state (stopInference_cleanup env s)) = False \<and>
         isLoading (final_state (stopInference_cleanup env s)) = False \<and>
         sessionRef (final_state (stopInference_cleanup env s)) = None \<and>
         roomRef (final_state (stopInference_cleanup env s)) = None \<and>
         audioTrackRef (final_state (stopInference_cleanup env s)) = None \<and>
         document_audio (final_state (stopInference_cleanup env s)) =
           filter (\<lambda>audio. srcObject audio = None) (document_audio s)"
  using assms
  by (simp add: stopInference_cleanup_def stopInference_disconnect_def stopInference_finish_def
      emit_def Let_def split: option.splits settled.splits)

text \<open>stopInference completes whenever the track stop and the disconnect do not fail;
  what the backend answers does not matter.\<close>

lemma stopInference_completes:
  "trackStop_result env = Resolved () \<Longrightarrow> disconnect_result env = Resolved () \<Longrightarrow>
   completed (stopInference cfg env s)"
  by (simp add: stopInference_def stopInference_cleanup_def stopInference_disconnect_def
      Let_def split: option.splits)

text \<open>
  Claim C10. stopInference leaves the transcript, the change counter and the
  transcribing flag as they were, whether it completes or throws, in every state and
  whatever its calls answer.
\<close>

theorem stopInference_frame:
  "transcription (final_state (stopInference cfg env s)) = transcription s \<and>
   transcriptionUpdateTrigger (final_state (stopInference cfg env s)) =
     transcriptionUpdateTrigger s \<and>
   isTranscribing (final_state (stopInference cfg env s)) = isTranscribing s"
  using stopInference_notify_frame [of cfg env s]
    stopInference_cleanup_frame [of env "stopInference_notify cfg env s"]
  by (simp add: stopInference_def)

text \<open>
  Claim C4, as the code has it. After stopInference has completed, from any state, the
  lifecycle state is IDLE, the mic-on, connected, user-speaking and loading flags are
  false, and the session, room and audio-track refs are cleared. Of the audio elements
  of the document exactly those with a \<open>srcObject\<close> have been removed: the elements
  that are left are the ones without a \<open>srcObject\<close>, and each of them is still there.
\<close>

theorem stopInference_completed_state:
  assumes "completed (stopInference cfg env s)"
  shows "inferenceState (final_state (stopInference cfg env s)) = IDLE \<and>
         isMicOn (final_state (stopInference cfg env s)) = False \<and>
         isConnected (final_state (stopInference cfg env s)) = False \<and>
         isUserSpeaking (final_state (stopInference cfg env s)) = False \<and>
         isLoading (final_state (stopInference cfg env s)) = False \<and>
         sessionRef (final_state (stopInference cfg env s)) = None \<and>
         roomRef (final_state (stopInference cfg env s)) = None \<and>
         audioTrackRef (final_state (stopInference cfg env s)) = None \<and>
         document_audio (final_state (stopInference cfg env s)) =
           filter (\<lambda>audio. srcObject audio = None) (document_audio s) \<and>
         list_all (\<lambda>audio. srcObject audio = None)
           (document_audio (final_state (stopInference cfg env s)))"
proof -
  have c: "completed (stopInference_cleanup env (stopInference_notify cfg env s))"
    using assms by (simp add: stopInference_def)
  show ?thesis
    using stopInference_cleanup_completed [OF c] stopInference_notify_fields [of cfg env s]
    by (simp add: stopInference_def list_all_iff)
qed

theorem stopInference_completed_state_witness:
  "completed (stopInference cfg42 stop_ok active_hook) \<and>
   inferenceState (final_state (stopInference cfg42 stop_ok active_hook)) = IDLE \<and>
   isMicOn (final_state (stopInference cfg42 stop_ok active_hook)) = False \<and>
   isConnected (final_state (stopInference cfg42 stop_ok active_hook)) = False \<and>
   isUserSpeaking (final_state (stopInference cfg42 stop_ok active_hook)) = False \<and>
   isLoading (final_state (stopInference cfg42 stop_ok active_hook)) = False \<and>
   sessionRef (final_state (stopInference cfg42 stop_ok active_hook)) = None \<and>
   roomRef (final_state (stopInference cfg42 stop_ok active_hook)) = None \<and>
   audioTrackRef (final_state (stopInference cfg42 stop_ok active_hook)) = None \<and>
   document_audio (final_state (stopInference cfg42 stop_ok active_hook)) =
     filter (\<lambda>audio. srcObject audio = None) (document_audio active_hook) \<and>
   list_all (\<lambda>audio. srcObject audio = None)
     (document_audio (final_state (stopInference cfg42 stop_ok active_hook)))"
proof -
  have h: "completed (stopInference cfg42 stop_ok active_hook)" by code_simp
  show ?thesis
    using h stopInference_completed_state [OF h] by (rule conjI)
qed

text \<open>
  Claim C4 as stated fails: an audio element without a \<open>srcObject\<close> is skipped by the
  guard of the removal loop and is still attached to the document after stopInference
  has completed.
\<close>

theorem stopInference_leaves_idle_sink:
  "completed (stopInference cfg42 stop_ok idle_sink_hook) \<and>
   document_audio (final_state (stopInference cfg42 stop_ok idle_sink_hook)) =
     [\<lparr>srcObject = None, autoplay = True, volume = 1\<rparr>]"
  by code_simp

text \<open>Once the refs are cleared, the flags are down and no audio element has a
  \<open>srcObject\<close>, stopInference makes no call besides its toast and changes nothing.\<close>

lemma stopInference_when_released:
  assumes "sessionRef s = None" and "audioTrackRef s = None" and "roomRef s = None"
    and "inferenceState s = IDLE" and "isMicOn s = False" and "isConnected s = False"
    and "isUserSpeaking s = False" and "isLoading s = False"
    and "list_all (\<lambda>audio. srcObject audio = None) (document_audio s)"
  shows "stopInference cfg env s = Completed (emit (ToastSuccess ''Voice session stopped'') s)"
proof -
  have f: "filter (\<lambda>audio. srcObject audio = None) (document_audio s) = document_audio s"
    using assms(9) by (simp add: list_all_iff)
  have "stopInference_finish s = emit (ToastSuccess ''Voice session stopped'') s"
    using assms f by (cases s) (simp add: stopInference_finish_def emit_def)
  then show ?thesis
    using assms(1-3)
    by (simp add: stopInference_def stopInference_notify_def stopInference_cleanup_def
        stopInference_disconnect_def)
qed

text \<open>A second stopInference after one that completed: it completes, whatever its
  calls would answer, and only adds its toast.\<close>

lemma stopInference_again:
  assumes "completed (stopInference cfg env s)"
  shows "stopInference cfg env' (final_state (stopInference cfg env s)) =
     Completed (emit (ToastSuccess ''Voice session stopped'')
       (final_state (stopInference cfg env s)))"
proof -
  have c: "completed (stopInference_cleanup env (stopInference_notify cfg env s))"
    using assms by (simp add: stopInference_def)
  have fs: "final_state (stopInference cfg env s) =
      final_state (stopInference_cleanup env (stopInference_notify cfg env s))"
    by (simp add: stopInference_def)
  note k = stopInference_cleanup_completed [OF c]
  show ?thesis
    unfolding fs
    by (rule stopInference_when_released) (simp_all add: k list_all_iff)
qed

text \<open>
  Claim C5. Two consecutive calls of stopInference should end where one call ends,
  throw nothing and release nothing twice. That is so when the first call completes
  (\<open>stopInference_again\<close>). When the transport's disconnect rejects, the first call
  throws before it clears the room and session refs, and the second call posts the
  session end and calls disconnect a second time, and throws again.
\<close>

theorem stopInference_twice_disconnect_rejects:
  "stopInference cfg42 stop_disconnect_rejects active_hook =
     Threw (ErrorObject ''disconnect failed'')
       (active_hook\<lparr>effects := effects active_hook @
          [FetchSessionEnd ''s1'' True, RoomDisconnect 1]\<rparr>) \<and>
   stopInference cfg42 stop_disconnect_rejects
       (final_state (stopInference cfg42 stop_disconnect_rejects active_hook)) =
     Threw (ErrorObject ''disconnect failed'')
       (active_hook\<lparr>effects := effects active_hook @
          [FetchSessionEnd ''s1'' True, RoomDisconnect 1,
           FetchSessionEnd ''s1'' True, RoomDisconnect 1]\<rparr>)"
  by code_simp

text \<open>
  Claim C6. The session end is posted first when a session is held, and a failure of
  that call is logged and absorbed. A failure of the transport's disconnect is not:
  stopInference throws it to its caller, nothing is logged, and the steps after it do
  not run. The audio element stays in the document, the session ref stays set, and the
  lifecycle state and the flags stay as they were.
\<close>

theorem stopInference_disconnect_rejects:
  "\<not> completed (stopInference cfg42 stop_disconnect_rejects active_hook) \<and>
   new_effects active_hook
       (final_state (stopInference cfg42 stop_disconnect_rejects active_hook)) =
     [FetchSessionEnd ''s1'' True, RoomDisconnect 1] \<and>
   inferenceState (final_state (stopInference cfg42 stop_disconnect_rejects active_hook)) =
     ACTIVE \<and>
   isConnected (final_state (stopInference cfg42 stop_disconnect_rejects active_hook)) \<and>
   isMicOn (final_state (stopInference cfg42 stop_disconnect_rejects active_hook)) \<and>
   sessionRef (final_state (stopInference cfg42 stop_disconnect_rejects active_hook)) =
     Some session_s1 \<and>
   roomRef (final_state (stopInference cfg42 stop_disconnect_rejects active_hook)) = Some 1 \<and>
   document_audio (final_state (stopInference cfg42 stop_disconnect_rejects active_hook)) =
     [\<lparr>srcObject = Some 7, autoplay = True, volume = 1\<rparr>]"
  by code_simp

text \<open>The part of the claim that the code keeps: the session end is the first call
  of stopInference when a session with an id is held. That a rejected session end stops
  nothing is \<open>stopInference_completes\<close>, which asks nothing of the backend's answer.\<close>

lemma stopInference_notifies_first:
  assumes "sessionRef s = Some sd" and "sessionId sd \<noteq> []"
  shows "take 1 (new_effects s (final_state (stopInference cfg env s))) =
     [FetchSessionEnd (sessionId sd) (\<not> usePublicEndpoint cfg)]"
  using assms
  by (simp add: stopInference_def stopInference_notify_def stopInference_cleanup_def
      stopInference_disconnect_def stopInference_finish_def emit_def new_effects_def Let_def
      split: option.splits settled.splits)

subsection \<open>A start attempt that outlives a stop\<close>

text \<open>
  Claim C9, as the code has it. stopInference neither aborts a start attempt in
  flight nor marks it stale, and the continuation of the attempt and the Connected
  handler look at no attempt identifier and at no state. After a stopInference that
  completed (the state is IDLE), when the calls of an attempt that was in flight
  resolve, the attempt stores its session and its room in the refs and calls connect;
  the Connected event then sets the state to ACTIVE and the connected flag, and
  enables the microphone, after which the mic-on flag is set.
\<close>

theorem stale_attempt_after_stop:
  assumes "completed (stopInference cfg env s)"
  shows "inferenceState (final_state (stopInference cfg env s)) = IDLE \<and>
         inferenceState (startInference_resume cfg a room sd
            (final_state (stopInference cfg env s))) = ACTIVE \<and>
         isConnected (startInference_resume cfg a room sd
            (final_state (stopInference cfg env s))) \<and>
         isMicOn (startInference_resume cfg a room sd
            (final_state (stopInference cfg env s))) \<and>
         sessionRef (startInference_resume cfg a room sd
            (final_state (stopInference cfg env s))) = Some sd \<and>
         roomRef (startInference_resume cfg a room sd
            (final_state (stopInference cfg env s))) = Some room \<and>
         new_effects (final_state (stopInference cfg env s))
           (startInference_resume cfg a room sd (final_state (stopInference cfg env s))) =
           [if usePublicEndpoint cfg then PublicCreateLiveKitSession a
            else AgentCreateLiveKitSession a,
            RoomConnect room (url sd) (token sd),
            SetMicrophoneEnabled room True,
            ToastSuccess ''Voice session started successfully'']"
proof -
  have c: "completed (stopInference_cleanup env (stopInference_notify cfg env s))"
    using assms by (simp add: stopInference_def)
  have idle: "inferenceState (final_state (stopInference cfg env s)) = IDLE"
    using stopInference_cleanup_completed [OF c] by (simp add: stopInference_def)
  have rest: "inferenceState (startInference_resume cfg a room sd s') = ACTIVE \<and>
      isConnected (startInference_resume cfg a room sd s') \<and>
      isMicOn (startInference_resume cfg a room sd s') \<and>
      sessionRef (startInference_resume cfg a room sd s') = Some sd \<and>
      roomRef (startInference_resume cfg a room sd s') = Some room \<and>
      new_effects s' (startInference_resume cfg a room sd s') =
        [if usePublicEndpoint cfg then PublicCreateLiveKitSession a
         else AgentCreateLiveKitSession a,
         RoomConnect room (url sd) (token sd),
         SetMicrophoneEnabled room True,
         ToastSuccess ''Voice session started successfully'']" for s'
    by (simp add: startInference_resume_def run_def startInference_connect_def
        startInference_createSession_def onConnected_def onMicrophoneEnabled_def emit_def
        new_effects_def)
  from idle rest show ?thesis by blast
qed

theorem stale_attempt_after_stop_witness:
  "completed (stopInference cfg42 stop_ok
      (snd (startInference_begin cfg42 IDLE None initial_hook))) \<and>
   inferenceState (final_state (stopInference cfg42 stop_ok
      (snd (startInference_begin cfg42 IDLE None initial_hook)))) = IDLE \<and>
   inferenceState (startInference_resume cfg42 ''agent-42'' 1 session_s1
      (final_state (stopInference cfg42 stop_ok
         (snd (startInference_begin cfg42 IDLE None initial_hook))))) = ACTIVE"
proof -
  have h: "completed (stopInference cfg42 stop_ok
      (snd (startInference_begin cfg42 IDLE None initial_hook)))"
    by code_simp
  show ?thesis
    using h stale_attempt_after_stop [OF h, where a = "''agent-42''" and room = 1
        and sd = session_s1]
    by simp
qed

text \<open>
  Claim C9 as stated fails. A start is begun and is waiting for \<open>getAgent\<close>;
  stopInference runs and leaves the state IDLE; then the calls of the attempt resolve
  and the room connects: the state is ACTIVE, the connected and mic-on flags are set
  and the microphone has been enabled.
\<close>

theorem stale_attempt_becomes_active:
  "fst (startInference_begin cfg42 IDLE None initial_hook) = Some ''agent-42'' \<and>
   inferenceState stopped_while_connecting = IDLE \<and>
   inferenceState stale_attempt_resumed = ACTIVE \<and>
   isConnected stale_attempt_resumed \<and>
   isMicOn stale_attempt_resumed \<and>
   new_effects stopped_while_connecting stale_attempt_resumed =
     [AgentCreateLiveKitSession ''agent-42'', RoomConnect 1 ''wss://x'' ''t'',
      SetMicrophoneEnabled 1 True, ToastSuccess ''Voice session started successfully'']"
  by code_simp

subsection \<open>clearTranscription\<close>

text \<open>
  Claim C8, as the code has it. clearTranscription, in any state, empties the
  transcript, adds one to the change counter and changes nothing else: the counter
  that numbers the entries keeps its value, so the next entry continues the numbering.
\<close>

theorem clearTranscription_effect:
  "transcription (clearTranscription s) = [] \<and>
   transcriptionUpdateTrigger (clearTranscription s) = transcriptionUpdateTrigger s + 1 \<and>
   transcriptionIdCounter (clearTranscription s) = transcriptionIdCounter s \<and>
   (clearTranscription s)\<lparr>transcription := transcription s,
      transcriptionUpdateTrigger := transcriptionUpdateTrigger s\<rparr> = s \<and>
   map entry_id (transcription (onTranscriptionReceived l [seg] p pub (clearTranscription s))) =
     [''trans_'' @ show_nat (transcriptionIdCounter s)] \<and>
   transcriptionUpdateTrigger (onTranscriptionReceived l [seg] p pub (clearTranscription s)) =
     transcriptionUpdateTrigger s + 2"
  by (simp add: clearTranscription_def onTranscriptionReceived_def handle_segment_def Let_def)

text \<open>
  Claim C8 as stated fails: after two segments the change counter and the entry
  counter are both 2; after clearTranscription the change counter is 3 and the entry
  counter is still 2, while both started at 0.
\<close>

theorem clearTranscription_keeps_counting:
  "transcriptionUpdateTrigger initial_hook = 0 \<and>
   transcriptionIdCounter initial_hook = 0 \<and>
   transcriptionUpdateTrigger two_segments = 2 \<and>
   transcriptionIdCounter two_segments = 2 \<and>
   transcription (clearTranscription two_segments) = [] \<and>
   transcriptionUpdateTrigger (clearTranscription two_segments) = 3 \<and>
   transcriptionIdCounter (clearTranscription two_segments) = 2"
  by code_simp

subsection \<open>The transcript\<close>

lemma fold_timeout_callback:
  "fold (\<lambda>d. timeout_callback) ds s = (if ds = [] then s else timeout_callback s)"
  by (induction ds arbitrary: s) (simp_all add: timeout_callback_def)

lemma elapse_eq:
  "elapse ms s =
     (if filter (\<lambda>d. d \<le> clock s + ms) (timers s) = []
      then s\<lparr>clock := clock s + ms, timers := filter (\<lambda>d. \<not> d \<le> clock s + ms) (timers s)\<rparr>
      else timeout_callback
             (s\<lparr>clock := clock s + ms, timers := filter (\<lambda>d. \<not> d \<le> clock s + ms) (timers s)\<rparr>))"
  by (simp add: elapse_def Let_def fold_timeout_callback)










lemma en_GB_ten: "toLocaleTimeString_en_GB 36000000 = ''10:00:00''"
proof -
  have "toLocaleTimeString_en_GB 36000000 = pad2 10 @ '':'' @ pad2 0 @ '':'' @ pad2 0"
    by (simp add: toLocaleTimeString_en_GB_def)
  also have "\<dots> = ''10:00:00''" by code_simp
  finally show ?thesis .
qed

lemma en_GB_zero: "toLocaleTimeString_en_GB 0 = ''00:00:00''"
proof -
  have "toLocaleTimeString_en_GB 0 = pad2 0 @ '':'' @ pad2 0 @ '':'' @ pad2 0"
    by (simp add: toLocaleTimeString_en_GB_def)
  also have "\<dots> = ''00:00:00''" by code_simp
  finally show ?thesis .
qed

lemmas scenario_defs = ten_o_clock_def two_segments_def run_def onTranscriptionReceived_def
  handle_segment_def Let_def initial_hook_def seg_hi_def seg_agent_hello_def seg_hello_def
  seg_how_def




text \<open>In a 24-hour locale the same transcript is saved as the specification has it, and
  two final entries are joined by one newline.\<close>

lemma saved_text_scenario:
  "transcriptionText toLocaleTimeString_en_GB (transcription ten_o_clock) =
     ''[10:00:00] user: hi'' \<and>
   map entry_core (transcription two_segments) =
     [(User, ''hello'', True), (Agent, ''how are'', False)] \<and>
   transcriptionText toLocaleTimeString_en_GB
       (transcription ten_o_clock @ transcription two_segments) =
     ''[10:00:00] user: hi'' @ [CHR 0x0A] @ ''[00:00:00] user: hello''"
  by (simp add: scenario_defs entry_core_def transcriptionText_def entry_line_def
      en_GB_ten en_GB_zero)

subsection \<open>The reset after a final segment\<close>

lemma elapse_clock_timers:
  "clock (elapse ms s) = clock s + ms \<and>
   timers (elapse ms s) = filter (\<lambda>d. \<not> d \<le> clock s + ms) (timers s)"
  by (simp add: elapse_eq timeout_callback_def)

lemma elapse_fires:
  assumes "d \<in> set (timers s)" and "d \<le> clock s + ms"
  shows "isUserSpeaking (elapse ms s) = False \<and> isTranscribing (elapse ms s) = False"
proof -
  have "filter (\<lambda>d. d \<le> clock s + ms) (timers s) \<noteq> []"
    using assms by (auto simp add: filter_empty_conv)
  then show ?thesis by (simp add: elapse_eq timeout_callback_def)
qed

lemma elapse_quiet:
  assumes "list_all (\<lambda>d. clock s + ms < d) (timers s)"
  shows "isUserSpeaking (elapse ms s) = isUserSpeaking s \<and>
         isTranscribing (elapse ms s) = isTranscribing s"
proof -
  have "filter (\<lambda>d. d \<le> clock s + ms) (timers s) = []"
    using assms by (auto simp add: filter_empty_conv list_all_iff)
  then show ?thesis by (simp add: elapse_eq)
qed

lemma handle_segment_clock_timers:
  "clock (handle_segment l p pub seg s) = clock s \<and>
   timers (handle_segment l p pub seg s) =
     timers s @ (if seg_final seg \<and> p = Some l then [clock s + 500] else [])"
  by (simp add: handle_segment_def Let_def)

lemma handle_segment_flags:
  "p = Some l \<Longrightarrow>
   isUserSpeaking (handle_segment l p pub seg s) \<and> isTranscribing (handle_segment l p pub seg s)"
  by (simp add: handle_segment_def Let_def)

lemma fold_handle_segment_clock_timers:
  "clock (fold (handle_segment l p pub) segs s) = clock s \<and>
   timers (fold (handle_segment l p pub) segs s) =
     timers s @ map (\<lambda>seg. clock s + 500) (filter (\<lambda>seg. seg_final seg \<and> p = Some l) segs)"
  by (induction segs arbitrary: s) (simp_all add: handle_segment_clock_timers)

lemma fold_handle_segment_flags:
  "p = Some l \<Longrightarrow> segs \<noteq> [] \<Longrightarrow>
   isUserSpeaking (fold (handle_segment l p pub) segs s) \<and>
   isTranscribing (fold (handle_segment l p pub) segs s)"
proof (induction segs arbitrary: s rule: rev_induct)
  case Nil
  then show ?case by simp
next
  case (snoc seg segs)
  then show ?case by (simp add: handle_segment_flags)
qed

lemma handle_event_clock:
  "clock (handle_event e s) = clock s + elapsed [e]"
  by (cases e)
    (simp_all add: handler_defs emit_def elapse_clock_timers onTranscriptionReceived_def
      fold_handle_segment_clock_timers split: settled.splits)

lemma handle_event_keeps_timer:
  assumes "d \<in> set (timers s)" and "clock s + elapsed [e] < d"
  shows "d \<in> set (timers (handle_event e s))"
  using assms
  by (cases e)
    (simp_all add: handler_defs emit_def elapse_clock_timers onTranscriptionReceived_def
      fold_handle_segment_clock_timers split: settled.splits)

lemma elapsed_Cons: "elapsed (e # evs) = elapsed [e] + elapsed evs"
  by (cases e) simp_all

lemma run_clock: "clock (run evs s) = clock s + elapsed evs"
proof (induction evs arbitrary: s)
  case Nil
  show ?case by (simp add: run_def)
next
  case (Cons e evs)
  have "clock (run (e # evs) s) = clock (run evs (handle_event e s))"
    by (simp add: run_def)
  also have "\<dots> = clock (handle_event e s) + elapsed evs" by (rule Cons.IH)
  also have "\<dots> = clock s + elapsed [e] + elapsed evs" by (simp add: handle_event_clock)
  finally show ?case using elapsed_Cons [of e evs] by simp
qed

lemma run_keeps_timer:
  assumes "d \<in> set (timers s)" and "clock s + elapsed evs < d"
  shows "d \<in> set (timers (run evs s))"
  using assms
proof (induction evs arbitrary: s)
  case Nil
  then show ?case by (simp add: run_def)
next
  case (Cons e evs)
  have lt: "clock s + elapsed [e] < d"
    using Cons.prems(2) elapsed_Cons [of e evs] by simp
  have 1: "d \<in> set (timers (handle_event e s))"
    using Cons.prems(1) lt by (rule handle_event_keeps_timer)
  have 2: "clock (handle_event e s) + elapsed evs < d"
    using Cons.prems(2) elapsed_Cons [of e evs] by (simp add: handle_event_clock)
  have "d \<in> set (timers (run evs (handle_event e s)))"
    using 1 2 by (rule Cons.IH)
  then show ?case by (simp add: run_def)
qed

lemma run_append: "run (evs @ evs') s = run evs' (run evs s)"
  by (simp add: run_def)

text \<open>
  Claim C2, as the code has it. When a transcription event attributed to the local
  user holds a final segment, the handler sets the user-speaking and transcribing
  flags and schedules a timeout that is due 500 ms later. With no other timeout due,
  the flags stay set for less than 500 ms of silence. Nothing cancels or replaces the
  timeout: whatever events arrive within the 500 ms, new speaking evidence included,
  it is still pending, and when the 500 ms have passed it sets both flags to false.
\<close>

theorem final_user_segment_reset:
  assumes "list_ex seg_final segs" and "elapsed evs < 500"
  shows "isUserSpeaking (handle_event (TranscriptionReceived l segs (Some l) pub) s) \<and>
         isTranscribing (handle_event (TranscriptionReceived l segs (Some l) pub) s) \<and>
         clock s + 500 \<in> set (timers (handle_event (TranscriptionReceived l segs (Some l) pub) s)) \<and>
         (ms < 500 \<and> list_all (\<lambda>d. clock s + ms < d) (timers s) \<longrightarrow>
            isUserSpeaking (elapse ms (handle_event (TranscriptionReceived l segs (Some l) pub) s)) \<and>
            isTranscribing (elapse ms (handle_event (TranscriptionReceived l segs (Some l) pub) s))) \<and>
         clock s + 500 \<in> set (timers (run evs
            (handle_event (TranscriptionReceived l segs (Some l) pub) s))) \<and>
         clock (run (evs @ [Elapse (500 - elapsed evs)])
                  (handle_event (TranscriptionReceived l segs (Some l) pub) s)) = clock s + 500 \<and>
         isUserSpeaking (run (evs @ [Elapse (500 - elapsed evs)])
                  (handle_event (TranscriptionReceived l segs (Some l) pub) s)) = False \<and>
         isTranscribing (run (evs @ [Elapse (500 - elapsed evs)])
                  (handle_event (TranscriptionReceived l segs (Some l) pub) s)) = False"
proof -
  let ?s1 = "handle_event (TranscriptionReceived l segs (Some l) pub) s"
  let ?s2 = "run evs ?s1"
  have ne: "segs \<noteq> []" using assms(1) by auto
  have flags: "isUserSpeaking ?s1 \<and> isTranscribing ?s1"
    using fold_handle_segment_flags [OF refl ne, of l pub s]
    by (simp add: onTranscriptionReceived_def)
  have c1: "clock ?s1 = clock s"
    by (simp add: onTranscriptionReceived_def fold_handle_segment_clock_timers)
  have tm: "timers ?s1 = timers s @ map (\<lambda>seg. clock s + 500) (filter seg_final segs)"
    by (simp add: onTranscriptionReceived_def fold_handle_segment_clock_timers)
  have t1: "clock s + 500 \<in> set (timers ?s1)"
    unfolding tm using assms(1) by (auto simp add: list_ex_iff)
  have quiet: "ms < 500 \<and> list_all (\<lambda>d. clock s + ms < d) (timers s) \<longrightarrow>
      isUserSpeaking (elapse ms ?s1) \<and> isTranscribing (elapse ms ?s1)"
  proof
    assume a: "ms < 500 \<and> list_all (\<lambda>d. clock s + ms < d) (timers s)"
    then have "list_all (\<lambda>d. clock ?s1 + ms < d) (timers ?s1)"
      unfolding c1 tm by (auto simp add: list_all_iff)
    from elapse_quiet [OF this] flags
    show "isUserSpeaking (elapse ms ?s1) \<and> isTranscribing (elapse ms ?s1)" by simp
  qed
  have lt: "clock ?s1 + elapsed evs < clock s + 500"
    unfolding c1 using assms(2) by simp
  have t2: "clock s + 500 \<in> set (timers ?s2)"
    using t1 lt by (rule run_keeps_timer)
  have "clock ?s2 = clock ?s1 + elapsed evs"
    by (rule run_clock)
  then have c2: "clock ?s2 = clock s + elapsed evs"
    unfolding c1 .
  have r: "run (evs @ [Elapse (500 - elapsed evs)]) ?s1 = elapse (500 - elapsed evs) ?s2"
    by (simp add: run_def)
  have due: "clock s + 500 \<le> clock ?s2 + (500 - elapsed evs)"
    using assms(2) c2 by simp
  have fired: "isUserSpeaking (elapse (500 - elapsed evs) ?s2) = False \<and>
      isTranscribing (elapse (500 - elapsed evs) ?s2) = False"
    using t2 due by (rule elapse_fires)
  have c3: "clock (elapse (500 - elapsed evs) ?s2) = clock s + 500"
    using assms(2) c2 by (simp add: elapse_clock_timers)
  show ?thesis using flags t1 quiet t2 fired c3 unfolding r by blast
qed

theorem final_user_segment_reset_witness:
  "list_ex seg_final [seg_hello] \<and>
   elapsed [Elapse 100, TranscriptionReceived ''me'' [seg_how] (Some ''me'') None] < 500 \<and>
   ((499::nat) < 500 \<and> list_all (\<lambda>d. clock initial_hook + 499 < d) (timers initial_hook)) \<and>
   isUserSpeaking (handle_event (TranscriptionReceived ''me'' [seg_hello] (Some ''me'') None)
      initial_hook) \<and>
   clock initial_hook + 500 \<in> set (timers
      (handle_event (TranscriptionReceived ''me'' [seg_hello] (Some ''me'') None) initial_hook)) \<and>
   isUserSpeaking (elapse 499
      (handle_event (TranscriptionReceived ''me'' [seg_hello] (Some ''me'') None) initial_hook)) \<and>
   isTranscribing (elapse 499
      (handle_event (TranscriptionReceived ''me'' [seg_hello] (Some ''me'') None) initial_hook)) \<and>
   isUserSpeaking (run ([Elapse 100, TranscriptionReceived ''me'' [seg_how] (Some ''me'') None] @
        [Elapse (500 - elapsed [Elapse 100,
           TranscriptionReceived ''me'' [seg_how] (Some ''me'') None])])
      (handle_event (TranscriptionReceived ''me'' [seg_hello] (Some ''me'') None) initial_hook))
     = False \<and>
   isTranscribing (run ([Elapse 100, TranscriptionReceived ''me'' [seg_how] (Some ''me'') None] @
        [Elapse (500 - elapsed [Elapse 100,
           TranscriptionReceived ''me'' [seg_how] (Some ''me'') None])])
      (handle_event (TranscriptionReceived ''me'' [seg_hello] (Some ''me'') None) initial_hook))
     = False"
proof -
  have h1: "list_ex seg_final [seg_hello]" by (simp add: seg_hello_def)
  have h2: "elapsed [Elapse 100, TranscriptionReceived ''me'' [seg_how] (Some ''me'') None] < 500"
    by simp
  have h3: "(499::nat) < 500 \<and>
      list_all (\<lambda>d. clock initial_hook + 499 < d) (timers initial_hook)"
    by (simp add: initial_hook_def)
  show ?thesis
    using h1 h2 h3
      final_user_segment_reset [OF h1 h2, where l = "''me''" and pub = None
        and s = initial_hook and ms = 499]
    by blast
qed

text \<open>
  Claim C2 as stated fails in its second half. The user ends an utterance (a final
  segment) and 100 ms later a non-final segment of the next utterance arrives: both
  flags are set again, and the only pending timeout is the one of the first segment,
  due at 500 ms. When it fires, 400 ms after the new evidence, it sets both flags to
  false.
\<close>

theorem stale_timeout_overwrites_evidence:
  "isUserSpeaking (run next_utterance initial_hook) \<and>
   isTranscribing (run next_utterance initial_hook) \<and>
   clock (run next_utterance initial_hook) = 100 \<and>
   timers (run next_utterance initial_hook) = [500] \<and>
   isUserSpeaking (run (next_utterance @ [Elapse 400]) initial_hook) = False \<and>
   isTranscribing (run (next_utterance @ [Elapse 400]) initial_hook) = False"
  by code_simp

text \<open>The sixth scenario of the specification: the session is active with the
  microphone on; a final segment of the user adds one entry, and 500 ms later, with no
  further evidence, the user is no longer shown as speaking.\<close>

lemma session_scenario:
  "inferenceState active_hook = ACTIVE \<and> isMicOn active_hook \<and>
   map entry_core
     (transcription (run [TranscriptionReceived ''me'' [seg_hello] (Some ''me'') None] active_hook)) =
     [(User, ''hello'', True)] \<and>
   isUserSpeaking (run [TranscriptionReceived ''me'' [seg_hello] (Some ''me'') None] active_hook) \<and>
   isUserSpeaking
     (run [TranscriptionReceived ''me'' [seg_hello] (Some ''me'') None, Elapse 500] active_hook) =
     False"
  by code_simp

end
